theory Spec2Isabelle
  imports Main "HOL-Library.Word"
begin

unbundle bit_operations_syntax

section \<open>The 6522 VIA: data model (src/via6522/via6522.go)\<close>

text \<open>
  Go's \<open>byte\<close> is an 8-bit word and the register address a \<open>uint16\<close>.
\<close>

type_synonym byte = "8 word"
type_synonym uint16 = "16 word"

text \<open>
  The two \<open>panic\<close> calls of the package carry the address that was not handled. A
  peripheral is foreign code behind an interface, so each of its operations may panic as
  well; the value it panics with is kept as a string.
\<close>

datatype error =
    ReadNotHandled uint16
  | WriteNotHandled uint16
  | PeripheralPanic string

record Options =
  DumpBinary :: bool
  DumpAscii :: bool

text \<open>
  \<open>ParallelPeripheral\<close> is an interface: a value of it is a table of methods bound to
  some device. The devices live outside the VIA, in a world of type \<open>'w\<close> that the VIA
  never inspects. \<open>Read\<close>, \<open>Write\<close> and \<open>Shutdown\<close> act on that world and either
  return or panic (the world a panicking call leaves behind is kept). \<open>PinMask\<close> and
  \<open>String\<close> describe the wiring and the name of the device and are modelled as
  attributes of the interface value. Two entries of a peripheral list may be the same
  device: their methods then act on the same part of the world. The fields carry the
  prefix \<open>P_\<close>, since \<open>Read\<close>, \<open>Write\<close> and \<open>Shutdown\<close> are also the names of the
  chip's own methods.
\<close>

record 'w ParallelPeripheral =
  P_PinMask :: byte
  P_Read :: "'w \<Rightarrow> (error + byte) \<times> 'w"
  P_Shutdown :: "'w \<Rightarrow> (error + unit) \<times> 'w"
  P_Write :: "byte \<Rightarrow> 'w \<Rightarrow> (error + unit) \<times> 'w"
  P_String :: string

record 'w Via6522 =
  ora :: byte
  orb :: byte
  ira :: byte
  irb :: byte
  ddra :: byte
  ddrb :: byte
  pcr :: byte
  options :: Options
  paPeripherals :: "'w ParallelPeripheral list"
  pbPeripherals :: "'w ParallelPeripheral list"

text \<open>
  What the package prints is kept as a list of events, one per \<open>fmt.Printf\<close> or
  \<open>fmt.Print\<close> statement, with the arguments that are formatted (the formatting itself
  is the standard library's).
\<close>

datatype port = PORTA | PORTB

datatype printed =
    Attaching port string byte
  | ShuttingDown port string
  | ViaOutput byte
  | AsciiByte byte

text \<open>
  The methods have a pointer receiver and mutate the chip in place. The state they run
  in is the chip, the console and the world of the devices; each method returns the new
  state together with its result, \<open>Inl\<close> for a panic.
\<close>

record 'w machine =
  via :: "'w Via6522"
  console :: "printed list"
  world :: 'w

section \<open>The 6522 VIA: operations\<close>

definition NewVia6522 :: "Options \<Rightarrow> 'w Via6522" where
  "NewVia6522 o' =
     \<lparr>ora = 0, orb = 0, ira = 0, irb = 0, ddra = 0, ddrb = 0, pcr = 0,
      options = o', paPeripherals = [], pbPeripherals = []\<rparr>"

definition AttachToPortA :: "'w ParallelPeripheral \<Rightarrow> 'w machine \<Rightarrow> 'w machine" where
  "AttachToPortA p m =
     (let m1 = m\<lparr>console := console m @ [Attaching PORTA (P_String p) (P_PinMask p)]\<rparr>
      in m1\<lparr>via := (via m1)\<lparr>paPeripherals := paPeripherals (via m1) @ [p]\<rparr>\<rparr>)"

definition AttachToPortB :: "'w ParallelPeripheral \<Rightarrow> 'w machine \<Rightarrow> 'w machine" where
  "AttachToPortB p m =
     (let m1 = m\<lparr>console := console m @ [Attaching PORTB (P_String p) (P_PinMask p)]\<rparr>
      in m1\<lparr>via := (via m1)\<lparr>pbPeripherals := pbPeripherals (via m1) @ [p]\<rparr>\<rparr>)"

text \<open>
  One \<open>for ... range\<close> loop of \<open>Shutdown\<close>: print, then call the hook. A panic of the
  hook leaves the loop (nothing in the package recovers).
\<close>

fun shutdownEach :: "port \<Rightarrow> 'w ParallelPeripheral list \<Rightarrow> 'w machine \<Rightarrow> (error + unit) \<times> 'w machine" where
  "shutdownEach pt [] m = (Inr (), m)"
| "shutdownEach pt (p # ps) m =
     (let m1 = m\<lparr>console := console m @ [ShuttingDown pt (P_String p)]\<rparr>
      in case P_Shutdown p (world m1) of
           (Inl e, w) \<Rightarrow> (Inl e, m1\<lparr>world := w\<rparr>)
         | (Inr u, w) \<Rightarrow> shutdownEach pt ps (m1\<lparr>world := w\<rparr>))"

definition Shutdown :: "'w machine \<Rightarrow> (error + unit) \<times> 'w machine" where
  "Shutdown m =
     (case shutdownEach PORTA (paPeripherals (via m)) m of
        (Inl e, m1) \<Rightarrow> (Inl e, m1)
      | (Inr u, m1) \<Rightarrow> shutdownEach PORTB (pbPeripherals (via m1)) m1)"

definition printAsciiByte :: "byte \<Rightarrow> 'w machine \<Rightarrow> 'w machine" where
  "printAsciiByte b m = m\<lparr>console := console m @ [AsciiByte b]\<rparr>"

definition readMixedInputOutput :: "byte \<Rightarrow> byte \<Rightarrow> byte \<Rightarrow> byte" where
  "readMixedInputOutput inp out ddr = (out AND ddr) OR (inp AND NOT ddr)"

text \<open>
  The loop of \<open>Read\<close> over one port. Its second argument is the running value of the
  input register (\<open>via.irb\<close> or \<open>via.ira\<close>), which the loop updates with \<open>|=\<close> after
  each peripheral; the value reached is returned also when a peripheral panics.
  \<open>p.Read()\<close> is called before \<open>p.PinMask()\<close>.
\<close>

fun readEach :: "'w ParallelPeripheral list \<Rightarrow> byte \<Rightarrow> 'w \<Rightarrow> error option \<times> byte \<times> 'w" where
  "readEach [] ir w = (None, ir, w)"
| "readEach (p # ps) ir w =
     (case P_Read p w of
        (Inl e, w1) \<Rightarrow> (Some e, ir, w1)
      | (Inr b, w1) \<Rightarrow> readEach ps (ir OR (b AND P_PinMask p)) w1)"

definition Read :: "uint16 \<Rightarrow> 'w machine \<Rightarrow> (error + byte) \<times> 'w machine" where
  "Read a m =
     (if a = 0x0 then
        (case readEach (pbPeripherals (via m)) 0x00 (world m) of
           (r, ir, w) \<Rightarrow>
             (let m1 = m\<lparr>via := (via m)\<lparr>irb := ir\<rparr>, world := w\<rparr>
              in case r of
                   Some e \<Rightarrow> (Inl e, m1)
                 | None \<Rightarrow>
                     (Inr (readMixedInputOutput (irb (via m1)) (orb (via m1)) (ddrb (via m1))), m1)))
      else if a = 0x1 then
        (case readEach (paPeripherals (via m)) 0x00 (world m) of
           (r, ir, w) \<Rightarrow>
             (let m1 = m\<lparr>via := (via m)\<lparr>ira := ir\<rparr>, world := w\<rparr>
              in case r of
                   Some e \<Rightarrow> (Inl e, m1)
                 | None \<Rightarrow>
                     (Inr (readMixedInputOutput (ira (via m1)) (ora (via m1)) (ddra (via m1))), m1)))
      else if a = 0x2 then (Inr (ddrb (via m)), m)
      else if a = 0x3 then (Inr (ddra (via m)), m)
      else if a = 0xC then (Inr (pcr (via m)), m)
      else (Inl (ReadNotHandled a), m))"

definition Reset :: "'w Via6522 \<Rightarrow> 'w Via6522" where
  "Reset v = v\<lparr>ora := 0, orb := 0, ira := 0, irb := 0, ddra := 0, ddrb := 0, pcr := 0\<rparr>"

text \<open>The loop of \<open>handleDataWrite\<close>: each peripheral is passed \<open>data & p.PinMask()\<close>.\<close>

fun writeEach :: "byte \<Rightarrow> 'w ParallelPeripheral list \<Rightarrow> 'w machine \<Rightarrow> (error + unit) \<times> 'w machine" where
  "writeEach data [] m = (Inr (), m)"
| "writeEach data (p # ps) m =
     (case P_Write p (data AND P_PinMask p) (world m) of
        (Inl e, w) \<Rightarrow> (Inl e, m\<lparr>world := w\<rparr>)
      | (Inr u, w) \<Rightarrow> writeEach data ps (m\<lparr>world := w\<rparr>))"

definition handleDataWrite :: "byte \<Rightarrow> 'w ParallelPeripheral list \<Rightarrow> 'w machine \<Rightarrow> (error + unit) \<times> 'w machine" where
  "handleDataWrite data peripherals m =
     (let m1 = (if DumpBinary (options (via m))
                then m\<lparr>console := console m @ [ViaOutput data]\<rparr> else m);
          m2 = (if DumpAscii (options (via m1)) then printAsciiByte data m1 else m1)
      in writeEach data peripherals m2)"

definition Write :: "uint16 \<Rightarrow> byte \<Rightarrow> 'w machine \<Rightarrow> (error + unit) \<times> 'w machine" where
  "Write a data m =
     (if a = 0x0 then
        (let m1 = m\<lparr>via := (via m)\<lparr>orb := data\<rparr>\<rparr>
         in handleDataWrite (data AND ddrb (via m1)) (pbPeripherals (via m1)) m1)
      else if a = 0x1 then
        (let m1 = m\<lparr>via := (via m)\<lparr>ora := data\<rparr>\<rparr>
         in handleDataWrite (data AND ddra (via m1)) (paPeripherals (via m1)) m1)
      else if a = 0x2 then (Inr (), m\<lparr>via := (via m)\<lparr>ddrb := data\<rparr>\<rparr>)
      else if a = 0x3 then (Inr (), m\<lparr>via := (via m)\<lparr>ddra := data\<rparr>\<rparr>)
      else if a = 0xC then (Inr (), m\<lparr>via := (via m)\<lparr>pcr := data\<rparr>\<rparr>)
      else (Inl (WriteNotHandled a), m))"

section \<open>The supervisor (src/go6502.go)\<close>

text \<open>
  \<open>mainReturningStatus\<close> is a straight-line script around one \<open>select\<close>. What it calls
  apart from the VIA (options, ROM, RAM, bus, processor, debugger, display) belongs to
  package \<open>go6502\<close>, whose other files are not modelled: each call to them, and each line
  the supervisor prints itself, is recorded as an effect, in program order. What the
  environment decides is an input of the model: the parsed options, whether the ROM
  image loads, the display and the state of the devices, and which case of the \<open>select\<close>
  is taken. The exit code is Go's \<open>int\<close>; it is only compared with 0 and passed on, so
  it is an \<open>int\<close> here.
\<close>

definition kernalPath :: string where
  "kernalPath = ''rom/kernal.rom''"

text \<open>
  The fields of the parsed options that the supervisor reads; \<open>ViaOptions\<close> stands for
  what \<open>NewVia6522\<close> keeps of them.
\<close>

record CliOptions =
  ViaSsd1306 :: bool
  Debug :: bool
  DebugCmds :: "string list"
  ViaOptions :: Options

text \<open>\<open>signal.Notify\<close> is called with \<open>os.Interrupt\<close> only, so no other signal is delivered.\<close>

datatype Signal = Interrupt

text \<open>
  The \<open>select\<close> statement: a value received from \<open>exitChan\<close> (an \<open>int\<close>, published by the
  processor), a signal received from \<open>sigChan\<close>, or neither ever (the supervisor then
  stays blocked).
\<close>

datatype arrival = ExitChan int | SigChan Signal | Nothing

datatype effect =
    ParseOptions
  | RomFromFile string
  | NewSsd1306
  | CreateBus
  | BusAttach string uint16
  | NewDebugger
  | QueueCommands "string list"
  | AttachDebugger
  | CpuReset
  | GoCpuSteps
  | SignalNotify Signal
  | PrintlnGotSignal Signal
  | PrintlnCpu
  | PrintlnDumping
  | RamDump string
  | DebuggerClose
  | Ssd1306Close

datatype outcome = Returns int | Panics string | Blocks

record 'w environment =
  parsedOptions :: CliOptions
  romError :: "string option"
  ssd1306 :: "'w ParallelPeripheral"
  devices :: 'w
  arrival :: arrival

text \<open>
  A run of the supervisor: how it ends, the effects in order, and the VIA as the
  supervisor configured it before the processor starts stepping (the processor's own
  accesses to the chip happen concurrently and are not part of this record).
\<close>

record 'w run =
  outcome :: outcome
  effects :: "effect list"
  configured :: "'w machine option"

text \<open>
  The deferred calls are kept on a stack, the latest first, and run in that order when
  the function returns. A supervisor that stays blocked in the \<open>select\<close> never runs them.
\<close>

definition mainReturningStatus :: "'w environment \<Rightarrow> 'w run" where
  "mainReturningStatus env =
     (let options = parsedOptions env;
          eff0 = [ParseOptions, RomFromFile kernalPath]
      in case romError env of
           Some err \<Rightarrow> \<lparr>outcome = Panics err, effects = eff0, configured = None\<rparr>
         | None \<Rightarrow>
            (let m0 = \<lparr>via = NewVia6522 (ViaOptions options), console = [], world = devices env\<rparr>;
                 (m1, eff1, deferred1) =
                    (if ViaSsd1306 options
                     then (AttachToPortB (ssd1306 env) m0, eff0 @ [NewSsd1306], [Ssd1306Close])
                     else (m0, eff0, []));
                 m2 = m1\<lparr>via := Reset (via m1)\<rparr>;
                 eff2 = eff1 @ [CreateBus, BusAttach ''ram'' 0x0000, BusAttach ''VIA'' 0xC000,
                                BusAttach ''kernal'' 0xE000];
                 (eff3, deferred3) =
                    (if Debug options
                     then (eff2 @ [NewDebugger, QueueCommands (DebugCmds options), AttachDebugger],
                           DebuggerClose # deferred1)
                     else (eff2, deferred1));
                 eff4 = eff3 @ [CpuReset, GoCpuSteps, SignalNotify Interrupt]
             in case (case arrival env of
                        ExitChan code \<Rightarrow> Some (code, eff4)
                      | SigChan sig \<Rightarrow> Some (1, eff4 @ [PrintlnGotSignal sig])
                      | Nothing \<Rightarrow> None) of
                  None \<Rightarrow> \<lparr>outcome = Blocks, effects = eff4, configured = Some m2\<rparr>
                | Some (exitStatus, eff5) \<Rightarrow>
                   (let eff6 = (if exitStatus \<noteq> 0
                                then eff5 @ [PrintlnCpu, PrintlnDumping, RamDump ''core'']
                                else eff5)
                    in \<lparr>outcome = Returns exitStatus, effects = eff6 @ deferred3,
                        configured = Some m2\<rparr>)))"

section \<open>Reference definitions and test peripherals\<close>

text \<open>
  The contributions of the peripherals of one port, as the specification words them:
  each peripheral's output masked by its pin mask, in attachment order. The sampling
  stops at the first peripheral whose \<open>Read\<close> panics.
\<close>

fun contributions :: "'w ParallelPeripheral list \<Rightarrow> 'w \<Rightarrow> (error + byte list) \<times> 'w" where
  "contributions [] w = (Inr [], w)"
| "contributions (p # ps) w =
     (case P_Read p w of
        (Inl e, w1) \<Rightarrow> (Inl e, w1)
      | (Inr b, w1) \<Rightarrow>
          (case contributions ps w1 of
             (Inl e, w2) \<Rightarrow> (Inl e, w2)
           | (Inr bs, w2) \<Rightarrow> (Inr ((b AND P_PinMask p) # bs), w2)))"

definition orAll :: "byte list \<Rightarrow> byte" where
  "orAll bs = foldr (OR) bs 0"

text \<open>
  A recording peripheral, for concrete runs: its world is the list of the calls made so
  far. \<open>probe n pm pins fails\<close> is device number \<open>n\<close>, wired to the pins of \<open>pm\<close>,
  driving \<open>pins\<close> on its output; every call is appended to the record, and its shutdown
  hook panics (after being recorded) when \<open>fails\<close> is set.
\<close>

datatype probe_call = ReadCalled nat | WriteCalled nat byte | ShutdownCalled nat

definition probe :: "nat \<Rightarrow> byte \<Rightarrow> byte \<Rightarrow> bool \<Rightarrow> (probe_call list) ParallelPeripheral" where
  "probe n pm pins fails =
     \<lparr>P_PinMask = pm,
      P_Read = (\<lambda>w. (Inr pins, w @ [ReadCalled n])),
      P_Shutdown = (\<lambda>w. (if fails then Inl (PeripheralPanic ''shutdown failed'') else Inr (),
                          w @ [ShutdownCalled n])),
      P_Write = (\<lambda>b w. (Inr (), w @ [WriteCalled n b])),
      P_String = ''probe''\<rparr>"

text \<open>A chip with the given direction registers and peripherals, nothing printed yet.\<close>

definition bench :: "byte \<Rightarrow> byte \<Rightarrow> 'w ParallelPeripheral list \<Rightarrow> 'w ParallelPeripheral list \<Rightarrow> 'w \<Rightarrow> 'w machine" where
  "bench da db pa pb w =
     \<lparr>via = (NewVia6522 \<lparr>DumpBinary = False, DumpAscii = False\<rparr>)
              \<lparr>ddra := da, ddrb := db, paPeripherals := pa, pbPeripherals := pb\<rparr>,
      console = [], world = w\<rparr>"

text \<open>
  The shutdown hooks of a list of peripherals, one after the other, up to the first that
  panics (only the world of the devices, not what is printed).
\<close>

fun hooksInOrder :: "'w ParallelPeripheral list \<Rightarrow> 'w \<Rightarrow> (error + unit) \<times> 'w" where
  "hooksInOrder [] w = (Inr (), w)"
| "hooksInOrder (p # ps) w =
     (case P_Shutdown p w of
        (Inl e, w1) \<Rightarrow> (Inl e, w1)
      | (Inr u, w1) \<Rightarrow> hooksInOrder ps w1)"

text \<open>What \<open>handleDataWrite\<close> prints for a byte under the given options.\<close>

definition dumped :: "Options \<Rightarrow> byte \<Rightarrow> printed list" where
  "dumped opts d =
     (if DumpBinary opts then [ViaOutput d] else []) @ (if DumpAscii opts then [AsciiByte d] else [])"

text \<open>
  The post-mortem actions of the supervisor: printing the processor, announcing the
  dump, and dumping the RAM (to whatever file).
\<close>

fun postMortem :: "effect \<Rightarrow> bool" where
  "postMortem PrintlnCpu = True"
| "postMortem PrintlnDumping = True"
| "postMortem (RamDump path) = True"
| "postMortem e = False"

text \<open>
  A run of the supervisor with a recording display: the ROM loads, the options say
  whether the display is attached and whether the debugger is on.
\<close>

definition session :: "bool \<Rightarrow> bool \<Rightarrow> arrival \<Rightarrow> (probe_call list) environment" where
  "session display debug arr =
     \<lparr>parsedOptions = \<lparr>ViaSsd1306 = display, Debug = debug, DebugCmds = [],
                        ViaOptions = \<lparr>DumpBinary = False, DumpAscii = False\<rparr>\<rparr>,
      romError = None, ssd1306 = probe 1 0xFF 0x00 False, devices = [], arrival = arr\<rparr>"

section \<open>Auxiliary lemmas\<close>

lemma readEach_contributions:
  "contributions ps w = (Inr cs, w') \<Longrightarrow> readEach ps ir w = (None, ir OR orAll cs, w')"
proof (induction ps arbitrary: ir w cs)
  case Nil
  then show ?case by (simp add: orAll_def)
next
  case (Cons p ps)
  then show ?case
    by (auto simp add: orAll_def or.assoc split: prod.splits sum.splits)
qed

lemma readEach_frame:
  "via (snd (Read 0x0 m)) = (via m)\<lparr>irb := fst (snd (readEach (pbPeripherals (via m)) 0 (world m)))\<rparr>"
  "console (snd (Read 0x0 m)) = console m"
  "via (snd (Read 0x1 m)) = (via m)\<lparr>ira := fst (snd (readEach (paPeripherals (via m)) 0 (world m)))\<rparr>"
  "console (snd (Read 0x1 m)) = console m"
  by (simp_all add: Read_def Let_def split: prod.splits option.splits)

lemma writeEach_returns:
  "\<forall>p\<in>set ps. \<forall>b w. fst (P_Write p b w) = Inr () \<Longrightarrow>
   writeEach d ps m =
     (Inr (), m\<lparr>world := foldl (\<lambda>w p. snd (P_Write p (d AND P_PinMask p) w)) (world m) ps\<rparr>)"
proof (induction ps arbitrary: m)
  case Nil
  then show ?case by simp
next
  case (Cons p ps)
  obtain r w1 where pw: "P_Write p (d AND P_PinMask p) (world m) = (r, w1)"
    by (cases "P_Write p (d AND P_PinMask p) (world m)")
  from Cons.prems have "fst (P_Write p (d AND P_PinMask p) (world m)) = Inr ()" by simp
  with pw have r: "r = Inr ()" by simp
  from Cons.prems have rest: "\<forall>p\<in>set ps. \<forall>b w. fst (P_Write p b w) = Inr ()" by simp
  show ?case
    using pw r Cons.IH [OF rest, of "m\<lparr>world := w1\<rparr>"] by simp
qed

lemma writeEach_via:
  "via (snd (writeEach d ps k)) = via k"
  by (induction ps arbitrary: k) (auto split: prod.splits sum.splits)

lemma shutdownEach_hooks:
  "fst (shutdownEach pt ps m) = fst (hooksInOrder ps (world m))
   \<and> world (snd (shutdownEach pt ps m)) = snd (hooksInOrder ps (world m))
   \<and> via (snd (shutdownEach pt ps m)) = via m"
proof (induction ps arbitrary: m)
  case Nil
  then show ?case by simp
next
  case (Cons p ps)
  show ?case
    by (cases "P_Shutdown p (world m)") (auto simp add: Let_def Cons.IH split: sum.splits)
qed

lemma hooksInOrder_append:
  "hooksInOrder (xs @ ys) w =
     (case hooksInOrder xs w of (Inl e, w1) \<Rightarrow> (Inl e, w1) | (Inr u, w1) \<Rightarrow> hooksInOrder ys w1)"
  by (induction xs arbitrary: w) (auto split: prod.splits sum.splits)

lemma Shutdown_hooks:
  "fst (Shutdown m) = fst (hooksInOrder (paPeripherals (via m) @ pbPeripherals (via m)) (world m))
   \<and> world (snd (Shutdown m)) = snd (hooksInOrder (paPeripherals (via m) @ pbPeripherals (via m)) (world m))
   \<and> via (snd (Shutdown m)) = via m"
proof -
  obtain r m1 where a: "shutdownEach PORTA (paPeripherals (via m)) m = (r, m1)"
    by (cases "shutdownEach PORTA (paPeripherals (via m)) m")
  have h: "fst (hooksInOrder (paPeripherals (via m)) (world m)) = r"
     "snd (hooksInOrder (paPeripherals (via m)) (world m)) = world m1" "via m1 = via m"
    using shutdownEach_hooks [of PORTA "paPeripherals (via m)" m] a by simp_all
  obtain r' w' where b: "hooksInOrder (paPeripherals (via m)) (world m) = (r', w')"
    by (cases "hooksInOrder (paPeripherals (via m)) (world m)")
  show ?thesis
    using a h b shutdownEach_hooks [of PORTB "pbPeripherals (via m)" m1]
    by (cases r) (auto simp add: Shutdown_def hooksInOrder_append)
qed

lemma hooksInOrder_returns:
  "\<forall>p\<in>set ps. \<forall>w. fst (P_Shutdown p w) = Inr () \<Longrightarrow>
   hooksInOrder ps w = (Inr (), foldl (\<lambda>w p. snd (P_Shutdown p w)) w ps)"
proof (induction ps arbitrary: w)
  case Nil
  then show ?case by simp
next
  case (Cons p ps)
  obtain r w1 where pw: "P_Shutdown p w = (r, w1)"
    by (cases "P_Shutdown p w")
  from Cons.prems have "fst (P_Shutdown p w) = Inr ()" by simp
  with pw have r: "r = Inr ()" by simp
  from Cons.prems have rest: "\<forall>p\<in>set ps. \<forall>w. fst (P_Shutdown p w) = Inr ()" by simp
  show ?case
    using pw r Cons.IH [OF rest, of w1] by simp
qed

lemma hooksInOrder_fails:
  assumes "\<forall>q\<in>set pre. \<forall>w. fst (P_Shutdown q w) = Inr ()"
    and "fst (P_Shutdown p (foldl (\<lambda>w q. snd (P_Shutdown q w)) w pre)) = Inl e"
  shows "hooksInOrder (pre @ p # post) w =
           (Inl e, snd (P_Shutdown p (foldl (\<lambda>w q. snd (P_Shutdown q w)) w pre)))"
proof -
  obtain r w1 where pw: "P_Shutdown p (foldl (\<lambda>w q. snd (P_Shutdown q w)) w pre) = (r, w1)"
    by (cases "P_Shutdown p (foldl (\<lambda>w q. snd (P_Shutdown q w)) w pre)")
  with assms(2) have "r = Inl e" by simp
  with pw show ?thesis
    by (simp add: hooksInOrder_append hooksInOrder_returns [OF assms(1)])
qed

lemma main_on_exit_code:
  "romError env = None \<Longrightarrow> arrival env = ExitChan code \<Longrightarrow>
   outcome (mainReturningStatus env) = Returns code
   \<and> (\<exists>m. configured (mainReturningStatus env) = Some m
        \<and> paPeripherals (via m) = []
        \<and> pbPeripherals (via m) = (if ViaSsd1306 (parsedOptions env) then [ssd1306 env] else []))
   \<and> filter (\<lambda>e. e = Ssd1306Close) (effects (mainReturningStatus env))
        = (if ViaSsd1306 (parsedOptions env) then [Ssd1306Close] else [])
   \<and> (ViaSsd1306 (parsedOptions env) \<longrightarrow> last (effects (mainReturningStatus env)) = Ssd1306Close)"
  by (simp add: mainReturningStatus_def Let_def AttachToPortB_def Reset_def NewVia6522_def)

lemma main_on_signal:
  "romError env = None \<Longrightarrow> arrival env = SigChan sig \<Longrightarrow>
   outcome (mainReturningStatus env) = Returns 1
   \<and> (\<exists>m. configured (mainReturningStatus env) = Some m
        \<and> paPeripherals (via m) = []
        \<and> pbPeripherals (via m) = (if ViaSsd1306 (parsedOptions env) then [ssd1306 env] else []))
   \<and> filter (\<lambda>e. e = Ssd1306Close) (effects (mainReturningStatus env))
        = (if ViaSsd1306 (parsedOptions env) then [Ssd1306Close] else [])
   \<and> (ViaSsd1306 (parsedOptions env) \<longrightarrow> last (effects (mainReturningStatus env)) = Ssd1306Close)"
  by (simp add: mainReturningStatus_def Let_def AttachToPortB_def Reset_def NewVia6522_def)

section \<open>Properties of the VIA\<close>

text \<open>
  C1. The mixed-direction read composition of an input byte, an output-register byte and
  a direction byte is \<open>(O & D) | (I & ~D)\<close>: bit by bit, the output bit where the
  direction bit is 1 and the input bit where it is 0. With direction \<open>0x00\<close> the result
  is the input, whatever the output register holds; with direction \<open>0xFF\<close> it is the
  output register, whatever the input is.
\<close>

theorem readMixedInputOutput_compose:
  "readMixedInputOutput I O' D = (O' AND D) OR (I AND NOT D)
   \<and> (\<forall>n. bit (readMixedInputOutput I O' D) n = (if bit D n then bit O' n else bit I n))
   \<and> readMixedInputOutput I O' 0x00 = I
   \<and> readMixedInputOutput I O' 0xFF = O'"
proof -
  have ff: "(0xFF :: byte) = - 1" by simp
  have bits: "bit (readMixedInputOutput I O' D) n = (if bit D n then bit O' n else bit I n)" for n
    by (auto simp add: readMixedInputOutput_def bit_or_iff bit_and_iff bit_not_iff dest: bit_imp_le_length)
  have pure_in: "readMixedInputOutput I O' 0x00 = I"
    by (simp add: readMixedInputOutput_def)
  have pure_out: "readMixedInputOutput I O' 0xFF = O'"
    unfolding ff by (simp add: readMixedInputOutput_def)
  show ?thesis
    using bits pure_in pure_out by (simp add: readMixedInputOutput_def)
qed

text \<open>
  C2. Reading register \<open>0x0\<close> (\<open>0x1\<close>) samples the peripherals of port B (port A) in
  attachment order; when every \<open>Read\<close> of a peripheral returns, the input register IRB
  (IRA) becomes the bitwise OR of the contributions \<open>Read() & PinMask()\<close>, and the value
  read is the mixed-direction composition of that input with ORB and DDRB (ORA and DDRA).
  With no peripheral on the port, writing \<open>O\<close> to the output register and reading the
  same address gives \<open>O & D\<close>, where \<open>D\<close> is the direction register of the port.
\<close>

theorem Read_port_composition:
  "(contributions (pbPeripherals (via m)) (world m) = (Inr csB, wB) \<longrightarrow>
      Read 0x0 m =
        (Inr (readMixedInputOutput (orAll csB) (orb (via m)) (ddrb (via m))),
         m\<lparr>via := (via m)\<lparr>irb := orAll csB\<rparr>, world := wB\<rparr>))
   \<and> (contributions (paPeripherals (via m)) (world m) = (Inr csA, wA) \<longrightarrow>
      Read 0x1 m =
        (Inr (readMixedInputOutput (orAll csA) (ora (via m)) (ddra (via m))),
         m\<lparr>via := (via m)\<lparr>ira := orAll csA\<rparr>, world := wA\<rparr>))
   \<and> (pbPeripherals (via n) = [] \<longrightarrow>
        fst (Write 0x0 O' n) = Inr ()
        \<and> fst (Read 0x0 (snd (Write 0x0 O' n))) = Inr (O' AND ddrb (via n)))
   \<and> (paPeripherals (via n) = [] \<longrightarrow>
        fst (Write 0x1 O' n) = Inr ()
        \<and> fst (Read 0x1 (snd (Write 0x1 O' n))) = Inr (O' AND ddra (via n)))"
proof -
  have rdB: "Read 0x0 m =
        (Inr (readMixedInputOutput (orAll csB) (orb (via m)) (ddrb (via m))),
         m\<lparr>via := (via m)\<lparr>irb := orAll csB\<rparr>, world := wB\<rparr>)"
    if "contributions (pbPeripherals (via m)) (world m) = (Inr csB, wB)"
    using readEach_contributions [OF that, of 0] by (simp add: Read_def)
  have rdA: "Read 0x1 m =
        (Inr (readMixedInputOutput (orAll csA) (ora (via m)) (ddra (via m))),
         m\<lparr>via := (via m)\<lparr>ira := orAll csA\<rparr>, world := wA\<rparr>)"
    if "contributions (paPeripherals (via m)) (world m) = (Inr csA, wA)"
    using readEach_contributions [OF that, of 0] by (simp add: Read_def)
  have wrB: "fst (Write 0x0 O' n) = Inr ()
        \<and> fst (Read 0x0 (snd (Write 0x0 O' n))) = Inr (O' AND ddrb (via n))"
    if "pbPeripherals (via n) = []"
    using that
    by (simp add: Write_def Read_def handleDataWrite_def printAsciiByte_def Let_def
        readMixedInputOutput_def)
  have wrA: "fst (Write 0x1 O' n) = Inr ()
        \<and> fst (Read 0x1 (snd (Write 0x1 O' n))) = Inr (O' AND ddra (via n))"
    if "paPeripherals (via n) = []"
    using that
    by (simp add: Write_def Read_def handleDataWrite_def printAsciiByte_def Let_def
        readMixedInputOutput_def)
  show ?thesis
    using rdB rdA wrB wrA by blast
qed

theorem Read_port_composition_witness:
  "Read 0x1 (snd (Write 0x1 0x3C (bench 0x0F 0xF0 [probe 1 0xF0 0xA5 False] [] [])))
     = (Inr 0xAC,
        (bench 0x0F 0xF0 [probe 1 0xF0 0xA5 False] [] [WriteCalled 1 0x00, ReadCalled 1])
          \<lparr>via := (via (bench 0x0F 0xF0 [probe 1 0xF0 0xA5 False] [] []))\<lparr>ora := 0x3C, ira := 0xA0\<rparr>\<rparr>)
   \<and> fst (Read 0x0 (bench 0x00 0x00 [] [probe 2 0x0F 0x36 False, probe 3 0xF0 0xC9 False] []))
     = Inr 0xC6
   \<and> fst (Read 0x0 (snd (Write 0x0 0x3C (bench 0x00 0x0F [] [] ([] :: probe_call list)))))
     = Inr 0x0C
   \<and> fst (Read 0x1 (snd (Write 0x1 0x3C (bench 0xFF 0x00 [] [] ([] :: probe_call list)))))
     = Inr 0x3C"
proof -
  let ?mA = "snd (Write 0x1 0x3C (bench 0x0F 0xF0 [probe 1 0xF0 0xA5 False] [] []))"
  let ?mB = "bench 0x00 0x00 [] [probe 2 0x0F 0x36 False, probe 3 0xF0 0xC9 False] []"
  let ?n = "bench 0x00 0x0F [] [] ([] :: probe_call list)"
  let ?n' = "bench 0xFF 0x00 [] [] ([] :: probe_call list)"
  have mA: "?mA = (bench 0x0F 0xF0 [probe 1 0xF0 0xA5 False] [] [WriteCalled 1 0x00])
                    \<lparr>via := (via (bench 0x0F 0xF0 [probe 1 0xF0 0xA5 False] [] []))\<lparr>ora := 0x3C\<rparr>\<rparr>"
    by (simp add: Write_def handleDataWrite_def bench_def NewVia6522_def probe_def)
  have cA: "contributions (paPeripherals (via ?mA)) (world ?mA)
              = (Inr [0xA0], [WriteCalled 1 0x00, ReadCalled 1])"
    unfolding mA by (simp add: bench_def probe_def)
  have cB: "contributions (pbPeripherals (via ?mB)) (world ?mB)
              = (Inr [0x06, 0xC0], [ReadCalled 2, ReadCalled 3])"
    by (simp add: bench_def probe_def)
  have nB: "pbPeripherals (via ?n) = []" by (simp add: bench_def)
  have nA: "paPeripherals (via ?n') = []" by (simp add: bench_def)
  have 1: "Read 0x1 ?mA = (Inr (readMixedInputOutput (orAll [0xA0]) (ora (via ?mA)) (ddra (via ?mA))),
         ?mA\<lparr>via := (via ?mA)\<lparr>ira := orAll [0xA0]\<rparr>, world := [WriteCalled 1 0x00, ReadCalled 1]\<rparr>)"
    using Read_port_composition [where m = ?mA and csA = "[0xA0]"
        and wA = "[WriteCalled 1 0x00, ReadCalled 1]", THEN conjunct2, THEN conjunct1] cA
    by (rule mp)
  have 2: "Read 0x0 ?mB = (Inr (readMixedInputOutput (orAll [0x06, 0xC0]) (orb (via ?mB)) (ddrb (via ?mB))),
         ?mB\<lparr>via := (via ?mB)\<lparr>irb := orAll [0x06, 0xC0]\<rparr>, world := [ReadCalled 2, ReadCalled 3]\<rparr>)"
    using Read_port_composition [where m = ?mB and csB = "[0x06, 0xC0]"
        and wB = "[ReadCalled 2, ReadCalled 3]", THEN conjunct1] cB
    by (rule mp)
  have 3: "fst (Read 0x0 (snd (Write 0x0 0x3C ?n))) = Inr (0x3C AND ddrb (via ?n))"
    using Read_port_composition [where n = ?n and O' = "0x3C",
        THEN conjunct2, THEN conjunct2, THEN conjunct1] nB
    by simp
  have 4: "fst (Read 0x1 (snd (Write 0x1 0x3C ?n'))) = Inr (0x3C AND ddra (via ?n'))"
    using Read_port_composition [where n = ?n' and O' = "0x3C",
        THEN conjunct2, THEN conjunct2, THEN conjunct2] nA
    by simp
  have v1: "Read 0x1 ?mA = (Inr 0xAC,
        (bench 0x0F 0xF0 [probe 1 0xF0 0xA5 False] [] [WriteCalled 1 0x00, ReadCalled 1])
          \<lparr>via := (via (bench 0x0F 0xF0 [probe 1 0xF0 0xA5 False] [] []))\<lparr>ora := 0x3C, ira := 0xA0\<rparr>\<rparr>)"
    unfolding 1 unfolding mA
    by (simp add: bench_def NewVia6522_def orAll_def readMixedInputOutput_def)
  have v2: "fst (Read 0x0 ?mB) = Inr 0xC6"
    unfolding 2 by (simp add: bench_def NewVia6522_def orAll_def readMixedInputOutput_def)
  have v3: "fst (Read 0x0 (snd (Write 0x0 0x3C ?n))) = Inr 0x0C"
    unfolding 3 by (simp add: bench_def NewVia6522_def)
  have v4: "fst (Read 0x1 (snd (Write 0x1 0x3C ?n'))) = Inr 0x3C"
    unfolding 4 by (simp add: bench_def NewVia6522_def)
  show ?thesis
    using v1 v2 v3 v4 by blast
qed

text \<open>
  C3. Writing \<open>data\<close> to register \<open>0x0\<close> (\<open>0x1\<close>) stores it in ORB (ORA), whatever the
  peripherals do. When no write sink of the port panics, the write returns and every
  peripheral of the port has been passed, in attachment order, the byte
  \<open>(data & DDRB) & PinMask\<close> (\<open>(data & DDRA) & PinMask\<close>); the console receives the
  diagnostic dump the options ask for and nothing else changes. In particular, writing
  \<open>0xFF\<close> to a port whose direction register is \<open>0xFF\<close> and whose only peripheral has
  pin mask \<open>0x0F\<close> passes exactly \<open>0x0F\<close> to that peripheral's write sink.
\<close>

theorem Write_fan_out:
  "orb (via (snd (Write 0x0 data m))) = data
   \<and> ora (via (snd (Write 0x1 data m))) = data
   \<and> ((\<forall>p\<in>set (pbPeripherals (via m)). \<forall>b w. fst (P_Write p b w) = Inr ()) \<longrightarrow>
        Write 0x0 data m =
          (Inr (),
           m\<lparr>via := (via m)\<lparr>orb := data\<rparr>,
             console := console m @ dumped (options (via m)) (data AND ddrb (via m)),
             world := foldl (\<lambda>w p. snd (P_Write p ((data AND ddrb (via m)) AND P_PinMask p) w))
                        (world m) (pbPeripherals (via m))\<rparr>))
   \<and> ((\<forall>p\<in>set (paPeripherals (via m)). \<forall>b w. fst (P_Write p b w) = Inr ()) \<longrightarrow>
        Write 0x1 data m =
          (Inr (),
           m\<lparr>via := (via m)\<lparr>ora := data\<rparr>,
             console := console m @ dumped (options (via m)) (data AND ddra (via m)),
             world := foldl (\<lambda>w p. snd (P_Write p ((data AND ddra (via m)) AND P_PinMask p) w))
                        (world m) (paPeripherals (via m))\<rparr>))
   \<and> (pbPeripherals (via n) = [q] \<and> P_PinMask q = 0x0F \<and> ddrb (via n) = 0xFF \<longrightarrow>
        world (snd (Write 0x0 0xFF n)) = snd (P_Write q 0x0F (world n)))
   \<and> (paPeripherals (via n) = [q] \<and> P_PinMask q = 0x0F \<and> ddra (via n) = 0xFF \<longrightarrow>
        world (snd (Write 0x1 0xFF n)) = snd (P_Write q 0x0F (world n)))"
proof -
  have stB: "orb (via (snd (Write 0x0 data m))) = data"
    by (simp add: Write_def handleDataWrite_def printAsciiByte_def Let_def writeEach_via)
  have stA: "ora (via (snd (Write 0x1 data m))) = data"
    by (simp add: Write_def handleDataWrite_def printAsciiByte_def Let_def writeEach_via)
  have fanB: "Write 0x0 data m =
          (Inr (),
           m\<lparr>via := (via m)\<lparr>orb := data\<rparr>,
             console := console m @ dumped (options (via m)) (data AND ddrb (via m)),
             world := foldl (\<lambda>w p. snd (P_Write p ((data AND ddrb (via m)) AND P_PinMask p) w))
                        (world m) (pbPeripherals (via m))\<rparr>)"
    if "\<forall>p\<in>set (pbPeripherals (via m)). \<forall>b w. fst (P_Write p b w) = Inr ()"
    by (simp add: Write_def handleDataWrite_def printAsciiByte_def Let_def dumped_def
        writeEach_returns [OF that])
  have fanA: "Write 0x1 data m =
          (Inr (),
           m\<lparr>via := (via m)\<lparr>ora := data\<rparr>,
             console := console m @ dumped (options (via m)) (data AND ddra (via m)),
             world := foldl (\<lambda>w p. snd (P_Write p ((data AND ddra (via m)) AND P_PinMask p) w))
                        (world m) (paPeripherals (via m))\<rparr>)"
    if "\<forall>p\<in>set (paPeripherals (via m)). \<forall>b w. fst (P_Write p b w) = Inr ()"
    by (simp add: Write_def handleDataWrite_def printAsciiByte_def Let_def dumped_def
        writeEach_returns [OF that])
  have oneB: "world (snd (Write 0x0 0xFF n)) = snd (P_Write q 0x0F (world n))"
    if "pbPeripherals (via n) = [q] \<and> P_PinMask q = 0x0F \<and> ddrb (via n) = 0xFF"
    using that
    by (cases "P_Write q 0x0F (world n)")
      (auto simp add: Write_def handleDataWrite_def printAsciiByte_def Let_def split: sum.splits)
  have oneA: "world (snd (Write 0x1 0xFF n)) = snd (P_Write q 0x0F (world n))"
    if "paPeripherals (via n) = [q] \<and> P_PinMask q = 0x0F \<and> ddra (via n) = 0xFF"
    using that
    by (cases "P_Write q 0x0F (world n)")
      (auto simp add: Write_def handleDataWrite_def printAsciiByte_def Let_def split: sum.splits)
  show ?thesis
    using stB stA fanB fanA oneB oneA by blast
qed

theorem Write_fan_out_witness:
  "Write 0x0 0x3C (bench 0x00 0x7F [] [probe 2 0x0F 0x00 False, probe 3 0xF0 0x00 False] [])
     = (Inr (),
        (bench 0x00 0x7F [] [probe 2 0x0F 0x00 False, probe 3 0xF0 0x00 False]
           [WriteCalled 2 0x0C, WriteCalled 3 0x30])
          \<lparr>via := (via (bench 0x00 0x7F [] [probe 2 0x0F 0x00 False, probe 3 0xF0 0x00 False] []))
                    \<lparr>orb := 0x3C\<rparr>\<rparr>)
   \<and> world (snd (Write 0x1 0xFF (bench 0xF0 0x00 [probe 1 0xFC 0x00 False] [] [])))
     = [WriteCalled 1 0xF0]
   \<and> world (snd (Write 0x0 0xFF (bench 0x00 0xFF [] [probe 4 0x0F 0x00 False] [])))
     = [WriteCalled 4 0x0F]
   \<and> world (snd (Write 0x1 0xFF (bench 0xFF 0x00 [probe 5 0x0F 0x00 False] [] [])))
     = [WriteCalled 5 0x0F]"
proof -
  let ?mB = "bench 0x00 0x7F [] [probe 2 0x0F 0x00 False, probe 3 0xF0 0x00 False] []"
  let ?mA = "bench 0xF0 0x00 [probe 1 0xFC 0x00 False] [] []"
  let ?nB = "bench 0x00 0xFF [] [probe 4 0x0F 0x00 False] []"
  let ?nA = "bench 0xFF 0x00 [probe 5 0x0F 0x00 False] [] []"
  have hB: "\<forall>p\<in>set (pbPeripherals (via ?mB)). \<forall>b w. fst (P_Write p b w) = Inr ()"
    by (simp add: bench_def probe_def)
  have hA: "\<forall>p\<in>set (paPeripherals (via ?mA)). \<forall>b w. fst (P_Write p b w) = Inr ()"
    by (simp add: bench_def probe_def)
  have gB: "pbPeripherals (via ?nB) = [probe 4 0x0F 0x00 False]
      \<and> P_PinMask (probe 4 0x0F 0x00 False) = 0x0F \<and> ddrb (via ?nB) = 0xFF"
    by (simp add: bench_def probe_def)
  have gA: "paPeripherals (via ?nA) = [probe 5 0x0F 0x00 False]
      \<and> P_PinMask (probe 5 0x0F 0x00 False) = 0x0F \<and> ddra (via ?nA) = 0xFF"
    by (simp add: bench_def probe_def)
  have 1: "Write 0x0 0x3C ?mB =
          (Inr (),
           ?mB\<lparr>via := (via ?mB)\<lparr>orb := 0x3C\<rparr>,
             console := console ?mB @ dumped (options (via ?mB)) (0x3C AND ddrb (via ?mB)),
             world := foldl (\<lambda>w p. snd (P_Write p ((0x3C AND ddrb (via ?mB)) AND P_PinMask p) w))
                        (world ?mB) (pbPeripherals (via ?mB))\<rparr>)"
    using Write_fan_out [where m = ?mB and data = "0x3C",
        THEN conjunct2, THEN conjunct2, THEN conjunct1] hB
    by (rule mp)
  have 2: "Write 0x1 0xFF ?mA =
          (Inr (),
           ?mA\<lparr>via := (via ?mA)\<lparr>ora := 0xFF\<rparr>,
             console := console ?mA @ dumped (options (via ?mA)) (0xFF AND ddra (via ?mA)),
             world := foldl (\<lambda>w p. snd (P_Write p ((0xFF AND ddra (via ?mA)) AND P_PinMask p) w))
                        (world ?mA) (paPeripherals (via ?mA))\<rparr>)"
    using Write_fan_out [where m = ?mA and data = "0xFF",
        THEN conjunct2, THEN conjunct2, THEN conjunct2, THEN conjunct1] hA
    by (rule mp)
  have 3: "world (snd (Write 0x0 0xFF ?nB)) = snd (P_Write (probe 4 0x0F 0x00 False) 0x0F (world ?nB))"
    using Write_fan_out [where n = ?nB and q = "probe 4 0x0F 0x00 False",
        THEN conjunct2, THEN conjunct2, THEN conjunct2, THEN conjunct2, THEN conjunct1] gB
    by (rule mp)
  have 4: "world (snd (Write 0x1 0xFF ?nA)) = snd (P_Write (probe 5 0x0F 0x00 False) 0x0F (world ?nA))"
    using Write_fan_out [where n = ?nA and q = "probe 5 0x0F 0x00 False",
        THEN conjunct2, THEN conjunct2, THEN conjunct2, THEN conjunct2, THEN conjunct2] gA
    by (rule mp)
  have v1: "Write 0x0 0x3C ?mB = (Inr (),
        (bench 0x00 0x7F [] [probe 2 0x0F 0x00 False, probe 3 0xF0 0x00 False]
           [WriteCalled 2 0x0C, WriteCalled 3 0x30])
          \<lparr>via := (via ?mB)\<lparr>orb := 0x3C\<rparr>\<rparr>)"
    unfolding 1 by (simp add: bench_def NewVia6522_def probe_def dumped_def)
  have v2: "world (snd (Write 0x1 0xFF ?mA)) = [WriteCalled 1 0xF0]"
    unfolding 2 by (simp add: bench_def NewVia6522_def probe_def)
  have v3: "world (snd (Write 0x0 0xFF ?nB)) = [WriteCalled 4 0x0F]"
    unfolding 3 by (simp add: bench_def probe_def)
  have v4: "world (snd (Write 0x1 0xFF ?nA)) = [WriteCalled 5 0x0F]"
    unfolding 4 by (simp add: bench_def probe_def)
  show ?thesis
    using v1 v2 v3 v4 by blast
qed

text \<open>
  C4. \<open>Reset\<close> sets ORA, ORB, IRA, IRB, DDRA, DDRB and PCR to zero and leaves the two
  lists of attached peripherals (and the options) as they were.
\<close>

theorem Reset_zeroes_registers_keeps_peripherals:
  "ora (Reset v) = 0 \<and> orb (Reset v) = 0 \<and> ira (Reset v) = 0 \<and> irb (Reset v) = 0
   \<and> ddra (Reset v) = 0 \<and> ddrb (Reset v) = 0 \<and> pcr (Reset v) = 0
   \<and> paPeripherals (Reset v) = paPeripherals v
   \<and> pbPeripherals (Reset v) = pbPeripherals v
   \<and> options (Reset v) = options v"
  by (simp add: Reset_def)

text \<open>
  C5. At every register address other than \<open>0x0\<close>, \<open>0x1\<close>, \<open>0x2\<close>, \<open>0x3\<close> and \<open>0xC\<close>
  (for example \<open>0xD\<close>) a read and a write both panic, with the address in the panic
  value; no byte is returned, nothing is stored and no peripheral is called.
\<close>

theorem unhandled_register_faults:
  "a \<notin> {0x0, 0x1, 0x2, 0x3, 0xC} \<Longrightarrow>
     Read a m = (Inl (ReadNotHandled a), m) \<and> Write a d m = (Inl (WriteNotHandled a), m)"
  by (simp add: Read_def Write_def)

theorem unhandled_register_faults_witness:
  "(0xD :: uint16) \<notin> {0x0, 0x1, 0x2, 0x3, 0xC}
   \<and> Read 0xD (bench 0 0 [] [] ([] :: probe_call list))
       = (Inl (ReadNotHandled 0xD), bench 0 0 [] [] [])
   \<and> Write 0xD 0x55 (bench 0 0 [] [] ([] :: probe_call list))
       = (Inl (WriteNotHandled 0xD), bench 0 0 [] [] [])"
  using unhandled_register_faults [of "0xD" "bench 0 0 [] [] ([] :: probe_call list)" "0x55"]
  by simp

text \<open>
  C8, as the code has it. A hook has no result, so the one way it can fail is a panic.
  \<open>Shutdown\<close> leaves the chip itself unchanged and invokes the
  shutdown hooks one after the other, those of port A before those of port B and in
  attachment order within a port, one call per attachment. When no hook fails, every
  hook has been invoked and \<open>Shutdown\<close> returns. When a hook fails after the hooks
  before it have returned, \<open>Shutdown\<close> ends there with that failure: the world of the
  devices is the one the failing hook left, so no later hook has been invoked.
\<close>

theorem Shutdown_in_order_until_failure:
  "via (snd (Shutdown m)) = via m
   \<and> ((\<forall>p\<in>set (paPeripherals (via m) @ pbPeripherals (via m)). \<forall>w. fst (P_Shutdown p w) = Inr ()) \<longrightarrow>
        fst (Shutdown m) = Inr ()
        \<and> world (snd (Shutdown m))
            = foldl (\<lambda>w p. snd (P_Shutdown p w)) (world m) (paPeripherals (via m) @ pbPeripherals (via m)))
   \<and> (paPeripherals (via n) @ pbPeripherals (via n) = pre @ p # post
        \<and> (\<forall>q\<in>set pre. \<forall>w. fst (P_Shutdown q w) = Inr ())
        \<and> fst (P_Shutdown p (foldl (\<lambda>w q. snd (P_Shutdown q w)) (world n) pre)) = Inl e \<longrightarrow>
        fst (Shutdown n) = Inl e
        \<and> world (snd (Shutdown n))
            = snd (P_Shutdown p (foldl (\<lambda>w q. snd (P_Shutdown q w)) (world n) pre)))"
proof -
  have ok: "fst (Shutdown m) = Inr ()
        \<and> world (snd (Shutdown m))
            = foldl (\<lambda>w p. snd (P_Shutdown p w)) (world m) (paPeripherals (via m) @ pbPeripherals (via m))"
    if "\<forall>p\<in>set (paPeripherals (via m) @ pbPeripherals (via m)). \<forall>w. fst (P_Shutdown p w) = Inr ()"
    using Shutdown_hooks [of m] hooksInOrder_returns [OF that, of "world m"] by simp
  have ko: "fst (Shutdown n) = Inl e
        \<and> world (snd (Shutdown n))
            = snd (P_Shutdown p (foldl (\<lambda>w q. snd (P_Shutdown q w)) (world n) pre))"
    if "paPeripherals (via n) @ pbPeripherals (via n) = pre @ p # post
        \<and> (\<forall>q\<in>set pre. \<forall>w. fst (P_Shutdown q w) = Inr ())
        \<and> fst (P_Shutdown p (foldl (\<lambda>w q. snd (P_Shutdown q w)) (world n) pre)) = Inl e"
  proof -
    from that have split: "paPeripherals (via n) @ pbPeripherals (via n) = pre @ p # post"
      and pre: "\<forall>q\<in>set pre. \<forall>w. fst (P_Shutdown q w) = Inr ()"
      and fails: "fst (P_Shutdown p (foldl (\<lambda>w q. snd (P_Shutdown q w)) (world n) pre)) = Inl e"
      by blast+
    show ?thesis
      using Shutdown_hooks [of n] hooksInOrder_fails [OF pre fails, of post]
      by (simp add: split)
  qed
  show ?thesis
    using Shutdown_hooks [of m] ok ko by blast
qed

theorem Shutdown_in_order_until_failure_witness:
  "fst (Shutdown (bench 0 0 [probe 1 0x0F 0 False, probe 2 0xF0 0 False] [probe 3 0xFF 0 False] []))
     = Inr ()
   \<and> world (snd (Shutdown (bench 0 0 [probe 1 0x0F 0 False, probe 2 0xF0 0 False]
                                     [probe 3 0xFF 0 False] [])))
     = [ShutdownCalled 1, ShutdownCalled 2, ShutdownCalled 3]
   \<and> fst (Shutdown (bench 0 0 [probe 1 0x0F 0 False, probe 2 0xF0 0 False]
                              [probe 3 0xFF 0 True, probe 4 0xFF 0 False] []))
     = Inl (PeripheralPanic ''shutdown failed'')
   \<and> world (snd (Shutdown (bench 0 0 [probe 1 0x0F 0 False, probe 2 0xF0 0 False]
                                     [probe 3 0xFF 0 True, probe 4 0xFF 0 False] [])))
     = [ShutdownCalled 1, ShutdownCalled 2, ShutdownCalled 3]"
proof -
  let ?m = "bench 0 0 [probe 1 0x0F 0 False, probe 2 0xF0 0 False] [probe 3 0xFF 0 False] []"
  let ?n = "bench 0 0 [probe 1 0x0F 0 False, probe 2 0xF0 0 False]
              [probe 3 0xFF 0 True, probe 4 0xFF 0 False] []"
  let ?pre = "[probe 1 0x0F 0 False, probe 2 0xF0 0 False]"
  have hm: "\<forall>p\<in>set (paPeripherals (via ?m) @ pbPeripherals (via ?m)). \<forall>w. fst (P_Shutdown p w) = Inr ()"
    by (simp add: bench_def probe_def)
  have hn: "paPeripherals (via ?n) @ pbPeripherals (via ?n)
              = ?pre @ probe 3 0xFF 0 True # [probe 4 0xFF 0 False]
      \<and> (\<forall>q\<in>set ?pre. \<forall>w. fst (P_Shutdown q w) = Inr ())
      \<and> fst (P_Shutdown (probe 3 0xFF 0 True) (foldl (\<lambda>w q. snd (P_Shutdown q w)) (world ?n) ?pre))
          = Inl (PeripheralPanic ''shutdown failed'')"
    by (simp add: bench_def probe_def)
  have 1: "fst (Shutdown ?m) = Inr ()
        \<and> world (snd (Shutdown ?m))
            = foldl (\<lambda>w p. snd (P_Shutdown p w)) (world ?m) (paPeripherals (via ?m) @ pbPeripherals (via ?m))"
    using Shutdown_in_order_until_failure [where m = ?m, THEN conjunct2, THEN conjunct1] hm
    by (rule mp)
  have 2: "fst (Shutdown ?n) = Inl (PeripheralPanic ''shutdown failed'')
        \<and> world (snd (Shutdown ?n))
            = snd (P_Shutdown (probe 3 0xFF 0 True) (foldl (\<lambda>w q. snd (P_Shutdown q w)) (world ?n) ?pre))"
    using Shutdown_in_order_until_failure [where n = ?n and pre = ?pre and p = "probe 3 0xFF 0 True"
        and post = "[probe 4 0xFF 0 False]" and e = "PeripheralPanic ''shutdown failed''",
        THEN conjunct2, THEN conjunct2] hn
    by (rule mp)
  have v1: "world (snd (Shutdown ?m)) = [ShutdownCalled 1, ShutdownCalled 2, ShutdownCalled 3]"
    using 1 by (simp add: bench_def probe_def)
  have v2: "world (snd (Shutdown ?n)) = [ShutdownCalled 1, ShutdownCalled 2, ShutdownCalled 3]"
    using 2 by (simp add: bench_def probe_def)
  show ?thesis
    using 1 2 v1 v2 by blast
qed

text \<open>
  C8 as stated does not hold: a failure of one hook does prevent the remaining ones.
  With two peripherals on port A and one on port B, the first of which fails in its
  shutdown hook, the hooks of the second and of the third are never invoked.
\<close>

theorem Shutdown_best_effort_counterexample:
  "fst (Shutdown (bench 0 0 [probe 1 0x0F 0 True, probe 2 0xF0 0 False] [probe 3 0xFF 0 False] []))
     = Inl (PeripheralPanic ''shutdown failed'')
   \<and> world (snd (Shutdown (bench 0 0 [probe 1 0x0F 0 True, probe 2 0xF0 0 False]
                                     [probe 3 0xFF 0 False] [])))
     = [ShutdownCalled 1]
   \<and> ShutdownCalled 2
       \<notin> set (world (snd (Shutdown (bench 0 0 [probe 1 0x0F 0 True, probe 2 0xF0 0 False]
                                            [probe 3 0xFF 0 False] []))))
   \<and> ShutdownCalled 3
       \<notin> set (world (snd (Shutdown (bench 0 0 [probe 1 0x0F 0 True, probe 2 0xF0 0 False]
                                            [probe 3 0xFF 0 False] []))))"
  by (simp add: Shutdown_def bench_def probe_def Let_def)

text \<open>
  C10. Reading register \<open>0x2\<close>, \<open>0x3\<close> or \<open>0xC\<close> returns the register and leaves the
  whole state unchanged. Reading register \<open>0x0\<close> (\<open>0x1\<close>) changes no field of the chip
  but IRB (IRA): ORA, ORB, DDRA, DDRB, PCR, the other input register, the options and
  both peripheral lists are as before, and nothing is printed. When the peripherals'
  reads return, the input register holds the OR of their contributions, with no mask by
  the direction register.
\<close>

theorem Read_frame:
  "Read 0x2 m = (Inr (ddrb (via m)), m)
   \<and> Read 0x3 m = (Inr (ddra (via m)), m)
   \<and> Read 0xC m = (Inr (pcr (via m)), m)
   \<and> (via (snd (Read 0x0 m)))\<lparr>irb := irb (via m)\<rparr> = via m
   \<and> console (snd (Read 0x0 m)) = console m
   \<and> (via (snd (Read 0x1 m)))\<lparr>ira := ira (via m)\<rparr> = via m
   \<and> console (snd (Read 0x1 m)) = console m
   \<and> (contributions (pbPeripherals (via m)) (world m) = (Inr csB, wB)
        \<longrightarrow> irb (via (snd (Read 0x0 m))) = orAll csB)
   \<and> (contributions (paPeripherals (via m)) (world m) = (Inr csA, wA)
        \<longrightarrow> ira (via (snd (Read 0x1 m))) = orAll csA)"
proof -
  have regs: "Read 0x2 m = (Inr (ddrb (via m)), m)" "Read 0x3 m = (Inr (ddra (via m)), m)"
    "Read 0xC m = (Inr (pcr (via m)), m)"
    by (simp_all add: Read_def)
  have frameB: "(via (snd (Read 0x0 m)))\<lparr>irb := irb (via m)\<rparr> = via m"
    by (simp add: readEach_frame)
  have frameA: "(via (snd (Read 0x1 m)))\<lparr>ira := ira (via m)\<rparr> = via m"
    by (simp add: readEach_frame)
  have valB: "irb (via (snd (Read 0x0 m))) = orAll csB"
    if "contributions (pbPeripherals (via m)) (world m) = (Inr csB, wB)"
    using readEach_contributions [OF that, of 0] by (simp add: readEach_frame)
  have valA: "ira (via (snd (Read 0x1 m))) = orAll csA"
    if "contributions (paPeripherals (via m)) (world m) = (Inr csA, wA)"
    using readEach_contributions [OF that, of 0] by (simp add: readEach_frame)
  show ?thesis
    using regs frameB frameA valB valA by (simp add: readEach_frame)
qed

theorem Read_frame_witness:
  "Read 0x2 (bench 0xFF 0xF0 [probe 1 0xF0 0xA5 False] [probe 2 0x0F 0x36 False, probe 3 0xF0 0xC9 False] [])
     = (Inr 0xF0, bench 0xFF 0xF0 [probe 1 0xF0 0xA5 False] [probe 2 0x0F 0x36 False, probe 3 0xF0 0xC9 False] [])
   \<and> contributions [probe 2 0x0F 0x36 False, probe 3 0xF0 0xC9 False] []
       = (Inr [0x06, 0xC0], [ReadCalled 2, ReadCalled 3])
   \<and> irb (via (snd (Read 0x0 (bench 0xFF 0xF0 [probe 1 0xF0 0xA5 False]
           [probe 2 0x0F 0x36 False, probe 3 0xF0 0xC9 False] [])))) = 0xC6
   \<and> contributions [probe 1 0xF0 0xA5 False] [] = (Inr [0xA0], [ReadCalled 1])
   \<and> ira (via (snd (Read 0x1 (bench 0xFF 0xF0 [probe 1 0xF0 0xA5 False]
           [probe 2 0x0F 0x36 False, probe 3 0xF0 0xC9 False] [])))) = 0xA0"
proof -
  have cB: "contributions [probe 2 0x0F 0x36 False, probe 3 0xF0 0xC9 False] []
       = (Inr [0x06, 0xC0], [ReadCalled 2, ReadCalled 3])"
    by (simp add: probe_def)
  have cA: "contributions [probe 1 0xF0 0xA5 False] [] = (Inr [0xA0], [ReadCalled 1])"
    by (simp add: probe_def)
  show ?thesis
    using cA cB
      Read_frame [of "bench 0xFF 0xF0 [probe 1 0xF0 0xA5 False] [probe 2 0x0F 0x36 False, probe 3 0xF0 0xC9 False] []"
        "[0x06, 0xC0]" "[ReadCalled 2, ReadCalled 3]" "[0xA0]" "[ReadCalled 1]"]
    by (simp add: bench_def NewVia6522_def orAll_def)
qed

section \<open>Properties of the supervisor\<close>

text \<open>
  C6. The status \<open>mainReturningStatus\<close> returns (and \<open>main\<close> hands to \<open>os.Exit\<close>) is 0
  exactly when the ROM loaded and the \<open>select\<close> received 0 from the processor's exit
  channel. When the \<open>select\<close> receives the interrupt signal, the status is 1; a code it
  receives from the processor is returned as it is.
\<close>

theorem exit_status_of_race:
  "(outcome (mainReturningStatus env) = Returns 0) = (romError env = None \<and> arrival env = ExitChan 0)
   \<and> (romError env = None \<and> arrival env = SigChan sig \<longrightarrow>
        outcome (mainReturningStatus env) = Returns 1)
   \<and> (romError env = None \<and> arrival env = ExitChan code \<longrightarrow>
        outcome (mainReturningStatus env) = Returns code)"
  by (cases "arrival env")
    (auto simp add: mainReturningStatus_def Let_def split: option.splits prod.splits if_splits)

theorem exit_status_of_race_witness:
  "outcome (mainReturningStatus (session True False (SigChan Interrupt))) = Returns 1
   \<and> outcome (mainReturningStatus (session True False (ExitChan 3))) = Returns 3
   \<and> outcome (mainReturningStatus (session True False (ExitChan 0))) = Returns 0"
proof -
  have r: "romError (session d g a) = None" "arrival (session d g a) = a" for d g a
    by (simp_all add: session_def)
  have 1: "outcome (mainReturningStatus (session True False (SigChan Interrupt))) = Returns 1"
    using exit_status_of_race [where env = "session True False (SigChan Interrupt)" and sig = Interrupt,
        THEN conjunct2, THEN conjunct1]
    by (simp add: r)
  have 2: "outcome (mainReturningStatus (session True False (ExitChan 3))) = Returns 3"
    using exit_status_of_race [where env = "session True False (ExitChan 3)" and code = 3,
        THEN conjunct2, THEN conjunct2]
    by (simp add: r)
  have 3: "outcome (mainReturningStatus (session True False (ExitChan 0))) = Returns 0"
    using exit_status_of_race [where env = "session True False (ExitChan 0)", THEN conjunct1]
    by (simp add: r)
  show ?thesis
    using 1 2 3 by blast
qed

text \<open>
  C7. The supervisor prints the processor's state and calls \<open>ram.Dump("core")\<close>, the
  dump of the RAM device into the file \<open>core\<close>, exactly in the runs that return a status
  other than 0; a run that returns 0 (or that does not return) does neither. In a run
  with a status other than 0 the post-mortem actions happen once, in this order: the
  processor is printed, the dump is announced, the RAM is dumped to \<open>core\<close>.
\<close>

theorem post_mortem_iff_nonzero:
  "(PrintlnCpu \<in> set (effects (mainReturningStatus env)))
      = (\<exists>st. outcome (mainReturningStatus env) = Returns st \<and> st \<noteq> 0)
   \<and> (RamDump ''core'' \<in> set (effects (mainReturningStatus env)))
      = (\<exists>st. outcome (mainReturningStatus env) = Returns st \<and> st \<noteq> 0)
   \<and> filter postMortem (effects (mainReturningStatus env))
      = (if \<exists>st. outcome (mainReturningStatus env) = Returns st \<and> st \<noteq> 0
         then [PrintlnCpu, PrintlnDumping, RamDump ''core''] else [])"
proof (cases "romError env")
  case (Some err)
  then show ?thesis
    by (simp add: mainReturningStatus_def Let_def)
next
  case None
  show ?thesis
  proof (cases "arrival env")
    case (ExitChan code)
    with None show ?thesis
      by (simp add: mainReturningStatus_def Let_def)
  next
    case (SigChan sig)
    with None show ?thesis
      by (simp add: mainReturningStatus_def Let_def)
  next
    case Nothing
    with None show ?thesis
      by (simp add: mainReturningStatus_def Let_def)
  qed
qed

text \<open>
  C9. On every path on which the supervisor returns, a code received from the processor
  (zero or not) as well as the interrupt signal, the close hook of every peripheral that
  the supervisor attached to the VIA has been invoked, once, and it is the last thing
  the supervisor does: the display is the only peripheral it ever attaches (to port B,
  when the options ask for it), and its \<open>Close\<close> is deferred at that point.
\<close>

theorem teardown_on_every_return:
  "romError env = None \<and> (arrival env = ExitChan code \<or> arrival env = SigChan sig) \<longrightarrow>
     (\<exists>st m. outcome (mainReturningStatus env) = Returns st
        \<and> configured (mainReturningStatus env) = Some m
        \<and> paPeripherals (via m) = []
        \<and> pbPeripherals (via m) = (if ViaSsd1306 (parsedOptions env) then [ssd1306 env] else [])
        \<and> filter (\<lambda>e. e = Ssd1306Close) (effects (mainReturningStatus env))
            = map (\<lambda>p. Ssd1306Close) (paPeripherals (via m) @ pbPeripherals (via m))
        \<and> (pbPeripherals (via m) \<noteq> [] \<longrightarrow> last (effects (mainReturningStatus env)) = Ssd1306Close))"
proof (intro impI, elim conjE disjE)
  assume rom: "romError env = None" and arr: "arrival env = ExitChan code"
  from main_on_exit_code [OF rom arr] obtain m where
    "outcome (mainReturningStatus env) = Returns code"
    "configured (mainReturningStatus env) = Some m" "paPeripherals (via m) = []"
    "pbPeripherals (via m) = (if ViaSsd1306 (parsedOptions env) then [ssd1306 env] else [])"
    "filter (\<lambda>e. e = Ssd1306Close) (effects (mainReturningStatus env))
        = (if ViaSsd1306 (parsedOptions env) then [Ssd1306Close] else [])"
    "ViaSsd1306 (parsedOptions env) \<longrightarrow> last (effects (mainReturningStatus env)) = Ssd1306Close"
    by blast
  then show "\<exists>st m. outcome (mainReturningStatus env) = Returns st
        \<and> configured (mainReturningStatus env) = Some m
        \<and> paPeripherals (via m) = []
        \<and> pbPeripherals (via m) = (if ViaSsd1306 (parsedOptions env) then [ssd1306 env] else [])
        \<and> filter (\<lambda>e. e = Ssd1306Close) (effects (mainReturningStatus env))
            = map (\<lambda>p. Ssd1306Close) (paPeripherals (via m) @ pbPeripherals (via m))
        \<and> (pbPeripherals (via m) \<noteq> [] \<longrightarrow> last (effects (mainReturningStatus env)) = Ssd1306Close)"
    by (cases "ViaSsd1306 (parsedOptions env)") simp_all
next
  assume rom: "romError env = None" and arr: "arrival env = SigChan sig"
  from main_on_signal [OF rom arr] obtain m where
    "outcome (mainReturningStatus env) = Returns 1"
    "configured (mainReturningStatus env) = Some m" "paPeripherals (via m) = []"
    "pbPeripherals (via m) = (if ViaSsd1306 (parsedOptions env) then [ssd1306 env] else [])"
    "filter (\<lambda>e. e = Ssd1306Close) (effects (mainReturningStatus env))
        = (if ViaSsd1306 (parsedOptions env) then [Ssd1306Close] else [])"
    "ViaSsd1306 (parsedOptions env) \<longrightarrow> last (effects (mainReturningStatus env)) = Ssd1306Close"
    by blast
  then show "\<exists>st m. outcome (mainReturningStatus env) = Returns st
        \<and> configured (mainReturningStatus env) = Some m
        \<and> paPeripherals (via m) = []
        \<and> pbPeripherals (via m) = (if ViaSsd1306 (parsedOptions env) then [ssd1306 env] else [])
        \<and> filter (\<lambda>e. e = Ssd1306Close) (effects (mainReturningStatus env))
            = map (\<lambda>p. Ssd1306Close) (paPeripherals (via m) @ pbPeripherals (via m))
        \<and> (pbPeripherals (via m) \<noteq> [] \<longrightarrow> last (effects (mainReturningStatus env)) = Ssd1306Close)"
    by (cases "ViaSsd1306 (parsedOptions env)") simp_all
qed

theorem teardown_on_every_return_witness:
  "effects (mainReturningStatus (session True True (ExitChan 0)))
     = [ParseOptions, RomFromFile ''rom/kernal.rom'', NewSsd1306, CreateBus,
        BusAttach ''ram'' 0x0000, BusAttach ''VIA'' 0xC000, BusAttach ''kernal'' 0xE000,
        NewDebugger, QueueCommands [], AttachDebugger, CpuReset, GoCpuSteps,
        SignalNotify Interrupt, DebuggerClose, Ssd1306Close]
   \<and> last (effects (mainReturningStatus (session True True (ExitChan 0)))) = Ssd1306Close
   \<and> last (effects (mainReturningStatus (session True False (ExitChan 2)))) = Ssd1306Close
   \<and> last (effects (mainReturningStatus (session True False (SigChan Interrupt)))) = Ssd1306Close"
proof -
  have r: "romError (session d g a) = None" "arrival (session d g a) = a"
    "ViaSsd1306 (parsedOptions (session d g a)) = d" for d g a
    by (simp_all add: session_def)
  have 1: "last (effects (mainReturningStatus (session True True (ExitChan 0)))) = Ssd1306Close"
    using teardown_on_every_return [where env = "session True True (ExitChan 0)" and code = 0]
    by (auto simp add: r)
  have 2: "last (effects (mainReturningStatus (session True False (ExitChan 2)))) = Ssd1306Close"
    using teardown_on_every_return [where env = "session True False (ExitChan 2)" and code = 2]
    by (auto simp add: r)
  have 3: "last (effects (mainReturningStatus (session True False (SigChan Interrupt)))) = Ssd1306Close"
    using teardown_on_every_return [where env = "session True False (SigChan Interrupt)" and sig = Interrupt]
    by (auto simp add: r)
  have 0: "effects (mainReturningStatus (session True True (ExitChan 0)))
     = [ParseOptions, RomFromFile ''rom/kernal.rom'', NewSsd1306, CreateBus,
        BusAttach ''ram'' 0x0000, BusAttach ''VIA'' 0xC000, BusAttach ''kernal'' 0xE000,
        NewDebugger, QueueCommands [], AttachDebugger, CpuReset, GoCpuSteps,
        SignalNotify Interrupt, DebuggerClose, Ssd1306Close]"
    by (simp add: mainReturningStatus_def session_def kernalPath_def Let_def)
  show ?thesis
    using 0 1 2 3 by blast
qed

end
